theory Spec2Isabelle
  imports Main "HOL-Library.Word" "HOL-Library.AList"
begin

section \<open>The websocket client hub and transaction dispatcher\<close>

text \<open>
  A shallow embedding of package \<^verbatim>\<open>websocket\<close>: the client record, the hub's
  control loop (\<^verbatim>\<open>hubType.start\<close>), the per-message dispatcher
  (\<^verbatim>\<open>clientType.handleTransaction\<close>), the writer (\<^verbatim>\<open>clientType.write\<close>)
  and the renderer of server-push messages (\<^verbatim>\<open>prepareUnrequested\<close>).

  Everything the package does to the outside world (log lines, calls into the
  brute-force, request, handler, cache and cluster packages, operations on the
  websocket transport, sends on the hub's channels) is recorded as an \<open>effect\<close>,
  in program order. What the outside world answers (JSON decoding and encoding,
  the brute-force verdict, the login flows, the request executor) is a field of
  the record \<open>collaborators\<close>, so that every theorem holds for any behaviour of
  those packages.
\<close>

subsection \<open>Data\<close>

type_synonym bytes = string

text \<open>A non-nil Go \<^verbatim>\<open>error\<close>, identified with the text its \<^verbatim>\<open>Error()\<close> method
  returns; \<^verbatim>\<open>nil\<close> is \<open>None\<close> of \<open>error option\<close>.\<close>
type_synonym error = string

text \<open>A \<^verbatim>\<open>*clientType\<close>: the hub's map is keyed by pointer identity.\<close>
type_synonym conn = nat

text \<open>\<^verbatim>\<open>uuid.UUID\<close> is sixteen bytes; \<^verbatim>\<open>uuid.Nil\<close> is the all-zero value.\<close>
type_synonym uuid = "128 word"

definition uuid_Nil :: uuid where
  "uuid_Nil = 0"

text \<open>
  The fields of \<^verbatim>\<open>clientType\<close> that carry data. The context, its cancel function,
  the write mutex and the transport are handles; what is done to them appears as effects.
\<close>
record clientType =
  address :: string
  admin :: bool
  fixedToken :: bool
  loginId :: "64 word"
  noAuth :: bool

text \<open>
  The envelopes of package \<^verbatim>\<open>types\<close>, with the fields this package reads and writes.
  A record field is a constant of the theory, so the transaction number and the payload
  of the response and push envelopes carry a suffix.
\<close>
record Request =
  Ressource :: string
  Action :: string
  Payload :: bytes

record RequestTransaction =
  TransactionNr :: "64 word"
  Requests :: "Request list"

record Response =
  Payload_res :: bytes

record ResponseTransaction =
  TransactionNr_res :: "64 word"
  Responses :: "Response list"
  Error :: string

record UnreqResponse =
  Payload_unreq :: bytes
  Ressource_unreq :: string
  Result :: string

record UnreqResponseTransaction =
  TransactionNr_unreq :: "64 word"
  Responses_unreq :: "UnreqResponse list"

text \<open>
  The values this package hands to \<^verbatim>\<open>json.Marshal\<close> as \<^verbatim>\<open>interface{}\<close>: the nil
  interface, a value obtained from a collaborator (a login flow's payload, the cache's
  maps), a UUID, the two cluster-event structs, the anonymous struct of the
  schema-loaded notice, and the two response envelopes.
\<close>
datatype 'x goValue =
    Nil
  | Opaque 'x
  | UUID uuid
  | ClusterEventFilesCopied uuid "uuid list" "64 word"
  | ClusterEventFileRequested uuid bool uuid string string
  | SchemaLoadedData 'x 'x
  | ResTrans ResponseTransaction
  | UnreqResTrans UnreqResponseTransaction

text \<open>
  The packages this one calls. The login flows receive pointers to fields of the client;
  here each takes the current values of exactly those fields and returns the new ones
  next to its two results.
\<close>
record 'x collaborators =
  json_Unmarshal :: "bytes \<Rightarrow> error + RequestTransaction"
  json_Marshal_value :: "'x goValue \<Rightarrow> error + bytes"
  bruteforce_CheckByHost :: "string \<Rightarrow> bool"
  request_ExecTransaction ::
    "64 word \<Rightarrow> bool \<Rightarrow> bool \<Rightarrow> RequestTransaction \<Rightarrow> ResponseTransaction \<Rightarrow> ResponseTransaction"
  request_LoginAuthToken ::
    "bytes \<Rightarrow> 64 word \<Rightarrow> bool \<Rightarrow> bool \<Rightarrow> ('x goValue \<times> error option) \<times> (64 word \<times> bool \<times> bool)"
  request_LoginAuthTokenFixed ::
    "bytes \<Rightarrow> 64 word \<Rightarrow> bool \<Rightarrow> ('x goValue \<times> error option) \<times> (64 word \<times> bool)"
  request_LoginAuthUser ::
    "bytes \<Rightarrow> 64 word \<Rightarrow> bool \<Rightarrow> bool \<Rightarrow> ('x goValue \<times> error option) \<times> (64 word \<times> bool \<times> bool)"
  handler_CheckForLicenseErrCode :: "error \<Rightarrow> bool"
  handler_ErrGeneral :: string
  cache_GetModuleIdMapMeta :: 'x
  cache_GetPresetRecordIds :: 'x

text \<open>
  \<^verbatim>\<open>json.Marshal\<close>: the nil interface encodes as the literal \<^verbatim>\<open>null\<close> and cannot
  fail; every other value is left to the collaborator.
\<close>
definition json_Marshal :: "'x collaborators \<Rightarrow> 'x goValue \<Rightarrow> error + bytes" where
  "json_Marshal env v = (case v of Nil \<Rightarrow> Inr ''null'' | _ \<Rightarrow> json_Marshal_value env v)"

text \<open>
  What the package does to the world. A log line keeps its level and its message (the
  format string where the source formats one). \<open>HubClientDel\<close> is the send
  \<^verbatim>\<open>hub.clientDel <- client\<close> of the client the code runs for; \<open>LimitAcquire\<close> and
  \<open>LimitRelease\<close> are the send to and the receive from \<^verbatim>\<open>hubRequestLimit\<close>.
\<close>
datatype effect =
    LimitAcquire
  | LimitRelease
  | LogError string
  | LogInfo string
  | LogWarning string
  | HubClientDel
  | CheckByHost string
  | BadAttemptByHost string
  | ExecTransaction "64 word" bool bool RequestTransaction
  | LoginAuthToken bytes
  | LoginAuthTokenFixed bytes
  | LoginAuthUser bytes
  | WsWriteMessage bytes

subsection \<open>The dispatcher\<close>

text \<open>
  \<^verbatim>\<open>authRequest := len(reqTrans.Requests) == 1 && reqTrans.Requests[0].Ressource == "auth"\<close>
\<close>
definition authRequest :: "RequestTransaction \<Rightarrow> bool" where
  "authRequest reqTrans \<longleftrightarrow>
     length (Requests reqTrans) = 1 \<and> Ressource (Requests reqTrans ! 0) = ''auth''"

text \<open>
  The \<^verbatim>\<open>switch req.Action\<close> of the authentication branch: the payload, the error, the
  client as the flow leaves it, and the call made. An action that is none of the three
  leaves \<^verbatim>\<open>resPayload\<close> and \<^verbatim>\<open>err\<close> at their zero values.
\<close>
definition loginSwitch ::
  "'x collaborators \<Rightarrow> clientType \<Rightarrow> Request \<Rightarrow> 'x goValue \<times> error option \<times> clientType \<times> effect list" where
  "loginSwitch env client req =
     (if Action req = ''token'' then
        (case request_LoginAuthToken env (Payload req) (loginId client) (admin client) (noAuth client) of
           ((resPayload, err), (l, a, n)) \<Rightarrow>
             (resPayload, err, client\<lparr>loginId := l, admin := a, noAuth := n\<rparr>,
              [LoginAuthToken (Payload req)]))
      else if Action req = ''tokenFixed'' then
        (case request_LoginAuthTokenFixed env (Payload req) (loginId client) (fixedToken client) of
           ((resPayload, err), (l, f)) \<Rightarrow>
             (resPayload, err, client\<lparr>loginId := l, fixedToken := f\<rparr>,
              [LoginAuthTokenFixed (Payload req)]))
      else if Action req = ''user'' then
        (case request_LoginAuthUser env (Payload req) (loginId client) (admin client) (noAuth client) of
           ((resPayload, err), (l, a, n)) \<Rightarrow>
             (resPayload, err, client\<lparr>loginId := l, admin := a, noAuth := n\<rparr>,
              [LoginAuthUser (Payload req)]))
      else (Nil, None, client, []))"

text \<open>
  The \<^verbatim>\<open>if err != nil { ... } else { ... }\<close> after the switch, and the log line that
  follows it when the transaction-level error is empty.
\<close>
definition authResult ::
  "'x collaborators \<Rightarrow> clientType \<Rightarrow> ResponseTransaction \<Rightarrow> 'x goValue \<Rightarrow> error option
     \<Rightarrow> ResponseTransaction \<times> effect list" where
  "authResult env client resTrans resPayload err =
     (let (resTrans', fx) =
        (case err of
           Some e \<Rightarrow>
             (resTrans\<lparr>Error := (if handler_CheckForLicenseErrCode env e then e else ''AUTH_ERROR'')\<rparr>,
              [LogWarning ''failed to authenticate user'', BadAttemptByHost (address client)])
         | None \<Rightarrow>
             (case json_Marshal env resPayload of
                Inl e \<Rightarrow> (resTrans\<lparr>Error := handler_ErrGeneral env\<rparr>, [])
              | Inr payload \<Rightarrow>
                  (resTrans\<lparr>Responses := Responses resTrans @ [\<lparr>Payload_res = payload\<rparr>]\<rparr>, [])))
      in (resTrans',
          fx @ (if Error resTrans' = ''''
                then [LogInfo ''authenticated client (login ID %d, admin: %v)''] else [])))"

text \<open>
  The body of \<^verbatim>\<open>handleTransaction\<close> between the acquisition of the limiter slot and
  the final marshal. \<open>Inl b\<close> is an early \<^verbatim>\<open>return b\<close>; \<open>Inr resTrans\<close> is the envelope
  that reaches \<^verbatim>\<open>json.Marshal(resTrans)\<close>. The zero value of
  \<^verbatim>\<open>types.ResponseTransaction\<close> has number 0, no responses (a nil slice and an empty
  one are both \<open>[]\<close>) and the empty error.
\<close>
definition handleTransaction_body ::
  "'x collaborators \<Rightarrow> clientType \<Rightarrow> bytes
     \<Rightarrow> (bytes + ResponseTransaction) \<times> clientType \<times> effect list" where
  "handleTransaction_body env client reqTransJson =
     (case json_Unmarshal env reqTransJson of
        Inl err \<Rightarrow> (Inl ''{}'', client, [LogError ''failed to unmarshal transaction''])
      | Inr reqTrans \<Rightarrow>
          (let started = LogInfo ''TRANSACTION %d, started by login ID %d (%s)'';
               resTrans = \<lparr>TransactionNr_res = TransactionNr reqTrans, Responses = [], Error = ''''\<rparr>
           in if \<not> authRequest reqTrans then
                (if fixedToken client then
                   (Inl ''{}'', client, [started, LogWarning ''blocked client request''])
                 else
                   (Inr (request_ExecTransaction env (loginId client) (admin client) (noAuth client)
                           reqTrans resTrans),
                    client,
                    [started, ExecTransaction (loginId client) (admin client) (noAuth client) reqTrans]))
              else
                (let req = Requests reqTrans ! 0 in
                 if bruteforce_CheckByHost env (address client) then
                   (Inl ''{}'', client, [started, CheckByHost (address client), HubClientDel])
                 else
                   (case loginSwitch env client req of
                      (resPayload, err, client', fxLogin) \<Rightarrow>
                        (case authResult env client' resTrans resPayload err of
                           (resTrans', fxAuth) \<Rightarrow>
                             (Inr resTrans', client',
                              [started, CheckByHost (address client)] @ fxLogin @ fxAuth))))))"

text \<open>
  \<^verbatim>\<open>handleTransaction\<close>: the slot is taken first and given back by the deferred
  function, after the body has returned; an envelope that fails to marshal is answered
  with the empty object.
\<close>
definition handleTransaction ::
  "'x collaborators \<Rightarrow> clientType \<Rightarrow> bytes \<Rightarrow> bytes \<times> clientType \<times> effect list" where
  "handleTransaction env client reqTransJson =
     (case handleTransaction_body env client reqTransJson of
        (Inl b, client', fx) \<Rightarrow> (b, client', [LimitAcquire] @ fx @ [LimitRelease])
      | (Inr resTrans, client', fx) \<Rightarrow>
          (case json_Marshal env (ResTrans resTrans) of
             Inl err \<Rightarrow>
               (''{}'', client',
                [LimitAcquire] @ fx @ [LogError ''cannot marshal responses'', LimitRelease])
           | Inr resTransJson \<Rightarrow> (resTransJson, client', [LimitAcquire] @ fx @ [LimitRelease])))"

text \<open>
  \<^verbatim>\<open>clientType.write\<close>: one call of \<^verbatim>\<open>ws.WriteMessage\<close> under the write mutex;
  \<open>wsErr\<close> is what the transport returns, and an error asks the hub to drop the client.
\<close>
definition client_write :: "error option \<Rightarrow> bytes \<Rightarrow> effect list" where
  "client_write wsErr message =
     WsWriteMessage message # (case wsErr of Some err \<Rightarrow> [HubClientDel] | None \<Rightarrow> [])"

text \<open>
  The goroutine \<^verbatim>\<open>clientType.read\<close> starts for every message it receives:
  \<^verbatim>\<open>client.write(client.handleTransaction(message))\<close>. Whatever the dispatcher
  returns is written.
\<close>
definition read_message ::
  "'x collaborators \<Rightarrow> error option \<Rightarrow> clientType \<Rightarrow> bytes \<Rightarrow> clientType \<times> effect list" where
  "read_message env wsErr client message =
     (case handleTransaction env client message of
        (res, client', fx) \<Rightarrow> (client', fx @ client_write wsErr res))"

subsection \<open>The hub\<close>

text \<open>
  The cluster event the hub receives on \<^verbatim>\<open>cluster.WebsocketClientEvents\<close>, with the
  fields the loop reads.
\<close>
record ClusterEvent =
  LoginId :: "64 word"
  Kick :: bool
  KickNonAdmin :: bool
  CollectionChanged :: uuid
  ConfigChanged :: bool
  FilesCopiedAttributeId :: uuid
  FilesCopiedFileIds :: "uuid list"
  FilesCopiedRecordId :: "64 word"
  FileRequestedAttributeId :: uuid
  FileRequestedChooseApp :: bool
  FileRequestedFileId :: uuid
  FileRequestedFileHash :: string
  FileRequestedFileName :: string
  Renew :: bool
  SchemaLoading :: bool
  SchemaLoaded :: bool

text \<open>
  \<^verbatim>\<open>hubType\<close>: the map from client pointers to \<^verbatim>\<open>bool\<close>, as the list of its
  entries; \<open>AList.update\<close> and \<open>AList.delete\<close> keep one entry for a key. The two
  channels are the source of the messages the loop handles.
\<close>
record hubType =
  clients :: "(conn \<times> bool) list"

text \<open>\<^verbatim>\<open>hub = hubType{clients: make(map[*clientType]bool), ...}\<close>\<close>
definition hub_init :: hubType where
  "hub_init = \<lparr>clients = []\<rparr>"

text \<open>The keys of the map: the live set of connections.\<close>
definition live :: "hubType \<Rightarrow> conn set" where
  "live hub = fst ` set (clients hub)"

text \<open>The three cases of the loop's \<^verbatim>\<open>select\<close>.\<close>
datatype hubMsg =
    ClientAdd conn
  | ClientDel conn
  | WebsocketClientEvent ClusterEvent

text \<open>
  What the hub does: log lines, the close frame, the closing of the transport and the
  cancelling of the context of a client, the gauge
  \<^verbatim>\<open>cluster.SetWebsocketClientCount\<close>, \<^verbatim>\<open>go client.write(jsonMsg)\<close>, and every
  call of \<^verbatim>\<open>prepareUnrequested\<close>, with the resource it is called for.
\<close>
datatype hubEffect =
    HubLogInfo string
  | HubLogError string
  | WsWriteClose conn
  | WsClose conn
  | CtxCancel conn
  | SetWebsocketClientCount nat
  | GoWrite conn bytes
  | PrepareUnrequested string

text \<open>\<^verbatim>\<open>len(hub.clients)\<close>\<close>
definition len_clients :: "hubType \<Rightarrow> nat" where
  "len_clients hub = card (live hub)"

text \<open>The closure \<^verbatim>\<open>removeClient\<close>: nothing happens unless the client is in the map.\<close>
definition removeClient :: "hubType \<Rightarrow> conn \<Rightarrow> hubType \<times> hubEffect list" where
  "removeClient hub client =
     (if client \<in> live hub then
        (let hub' = hub\<lparr>clients := AList.delete client (clients hub)\<rparr>
         in (hub',
             [HubLogInfo ''disconnecting client at %s'', WsWriteClose client, WsClose client,
              CtxCancel client, SetWebsocketClientCount (len_clients hub')]))
      else (hub, []))"

text \<open>\<^verbatim>\<open>case client := <-hub.clientAdd\<close>\<close>
definition addClient :: "hubType \<Rightarrow> conn \<Rightarrow> hubType \<times> hubEffect list" where
  "addClient hub client =
     (let hub' = hub\<lparr>clients := AList.update client True (clients hub)\<rparr>
      in (hub', [SetWebsocketClientCount (len_clients hub')]))"

text \<open>
  \<^verbatim>\<open>prepareUnrequested\<close>: the pair \<^verbatim>\<open>([]byte, error)\<close> it returns, the bytes being
  empty whenever the error is set.
\<close>
definition prepareUnrequested ::
  "'x collaborators \<Rightarrow> string \<Rightarrow> 'x goValue \<Rightarrow> bytes \<times> error option" where
  "prepareUnrequested env ressource payload =
     (case json_Marshal env payload of
        Inl err \<Rightarrow> ([], Some err)
      | Inr payloadJson \<Rightarrow>
          (case json_Marshal env
                  (UnreqResTrans
                     \<lparr>TransactionNr_unreq = 0,
                      Responses_unreq =
                        [\<lparr>Payload_unreq = payloadJson, Ressource_unreq = ressource,
                          Result = ''OK''\<rparr>]\<rparr>) of
             Inl err \<Rightarrow> ([], Some err)
           | Inr transJson \<Rightarrow> (transJson, None)))"

text \<open>
  The calls of \<^verbatim>\<open>prepareUnrequested\<close> a non-kick event makes, in program order: one
  for each of the seven \<^verbatim>\<open>if\<close> statements whose condition holds.
\<close>
definition eventRenders :: "'x collaborators \<Rightarrow> ClusterEvent \<Rightarrow> (string \<times> 'x goValue) list" where
  "eventRenders env event =
     (if CollectionChanged event \<noteq> uuid_Nil
      then [(''collection_changed'', UUID (CollectionChanged event))] else []) @
     (if ConfigChanged event then [(''config_changed'', Nil)] else []) @
     (if FilesCopiedAttributeId event \<noteq> uuid_Nil
      then [(''files_copied'',
             ClusterEventFilesCopied (FilesCopiedAttributeId event) (FilesCopiedFileIds event)
               (FilesCopiedRecordId event))] else []) @
     (if FileRequestedAttributeId event \<noteq> uuid_Nil
      then [(''fileRequested'',
             ClusterEventFileRequested (FileRequestedAttributeId event)
               (FileRequestedChooseApp event) (FileRequestedFileId event)
               (FileRequestedFileHash event) (FileRequestedFileName event))] else []) @
     (if Renew event then [(''reauthorized'', Nil)] else []) @
     (if SchemaLoading event then [(''schema_loading'', Nil)] else []) @
     (if SchemaLoaded event
      then [(''schema_loaded'',
             SchemaLoadedData (cache_GetModuleIdMapMeta env) (cache_GetPresetRecordIds env))]
      else [])"

text \<open>
  The seven \<^verbatim>\<open>if\<close> statements, run in order from \<^verbatim>\<open>jsonMsg := []byte{}\<close> and
  \<^verbatim>\<open>var err error\<close>. Every call assigns both \<^verbatim>\<open>jsonMsg\<close> and \<^verbatim>\<open>err\<close>, and
  is recorded when it is made. The result is the pair that reaches the test
  \<^verbatim>\<open>err != nil\<close>, with the calls made.
\<close>
definition prepareEvent ::
  "'x collaborators \<Rightarrow> ClusterEvent \<Rightarrow> (bytes \<times> error option) \<times> hubEffect list" where
  "prepareEvent env event =
     foldl (\<lambda>(res, fx) (ressource, payload).
              (prepareUnrequested env ressource payload, fx @ [PrepareUnrequested ressource]))
       (([], None), []) (eventRenders env event)"

text \<open>
  The body of \<^verbatim>\<open>for client, _ := range hub.clients\<close> for one client: the login
  filter, the asynchronous write of a non-kick event, the kick. The fields of the client
  are read through its pointer, from \<open>heap\<close>.
\<close>
definition rangeBody ::
  "(conn \<Rightarrow> clientType) \<Rightarrow> ClusterEvent \<Rightarrow> bytes \<Rightarrow> hubType \<Rightarrow> conn \<Rightarrow> hubType \<times> hubEffect list" where
  "rangeBody heap event jsonMsg hub client =
     (let kickEvent = Kick event \<or> KickNonAdmin event in
      if LoginId event \<noteq> 0 \<and> LoginId event \<noteq> loginId (heap client) then (hub, [])
      else
        (let fxWrite = (if \<not> kickEvent then [GoWrite client jsonMsg] else []) in
         if Kick event \<or> (KickNonAdmin event \<and> \<not> admin (heap client)) then
           (case removeClient hub client of
              (hub', fxRemove) \<Rightarrow>
                (hub', fxWrite @ [HubLogInfo ''kicking client (login ID %d)''] @ fxRemove))
         else (hub, fxWrite)))"

text \<open>
  The loop over the map. Go leaves the order of a \<^verbatim>\<open>range\<close> over a map unspecified:
  \<open>order\<close> is the order of this pass, an enumeration of the keys. The body deletes no
  key other than the one it is visiting, so every key of the map is visited.
\<close>
fun rangeClients ::
  "(conn \<Rightarrow> clientType) \<Rightarrow> ClusterEvent \<Rightarrow> bytes \<Rightarrow> conn list \<Rightarrow> hubType \<Rightarrow> hubType \<times> hubEffect list" where
  "rangeClients heap event jsonMsg [] hub = (hub, [])"
| "rangeClients heap event jsonMsg (client # order) hub =
     (case rangeBody heap event jsonMsg hub client of
        (hub', fx) \<Rightarrow>
          (case rangeClients heap event jsonMsg order hub' of
             (hub'', fx') \<Rightarrow> (hub'', fx @ fx')))"

text \<open>\<^verbatim>\<open>case event := <-cluster.WebsocketClientEvents\<close>\<close>
definition handleEvent ::
  "'x collaborators \<Rightarrow> (conn \<Rightarrow> clientType) \<Rightarrow> conn list \<Rightarrow> hubType \<Rightarrow> ClusterEvent
     \<Rightarrow> hubType \<times> hubEffect list" where
  "handleEvent env heap order hub event =
     (let kickEvent = Kick event \<or> KickNonAdmin event in
      if \<not> kickEvent then
        (case prepareEvent env event of
           ((jsonMsg, Some err), fxRender) \<Rightarrow>
             (hub, fxRender @ [HubLogError ''could not prepare unrequested transaction''])
         | ((jsonMsg, None), fxRender) \<Rightarrow>
             (case rangeClients heap event jsonMsg order hub of
                (hub', fx) \<Rightarrow> (hub', fxRender @ fx)))
      else rangeClients heap event [] order hub)"

text \<open>
  One iteration of the loop of \<^verbatim>\<open>hubType.start\<close>. \<open>rangeOrder\<close> gives the order in
  which a pass over a map visits its keys.
\<close>
definition hubStep ::
  "'x collaborators \<Rightarrow> (conn \<Rightarrow> clientType) \<Rightarrow> ((conn \<times> bool) list \<Rightarrow> conn list) \<Rightarrow> hubType \<Rightarrow> hubMsg
     \<Rightarrow> hubType \<times> hubEffect list" where
  "hubStep env heap rangeOrder hub msg =
     (case msg of
        ClientAdd client \<Rightarrow> addClient hub client
      | ClientDel client \<Rightarrow> removeClient hub client
      | WebsocketClientEvent event \<Rightarrow> handleEvent env heap (rangeOrder (clients hub)) hub event)"

text \<open>The loop, run on the messages it receives, in the order it receives them.\<close>
fun start ::
  "'x collaborators \<Rightarrow> (conn \<Rightarrow> clientType) \<Rightarrow> ((conn \<times> bool) list \<Rightarrow> conn list) \<Rightarrow> hubType
     \<Rightarrow> hubMsg list \<Rightarrow> hubType \<times> hubEffect list" where
  "start env heap rangeOrder hub [] = (hub, [])"
| "start env heap rangeOrder hub (msg # msgs) =
     (case hubStep env heap rangeOrder hub msg of
        (hub', fx) \<Rightarrow>
          (case start env heap rangeOrder hub' msgs of
             (hub'', fx') \<Rightarrow> (hub'', fx @ fx')))"

text \<open>The value of the gauge: the argument of the last call that set it, if any.\<close>
fun clientCount :: "hubEffect list \<Rightarrow> nat option" where
  "clientCount [] = None"
| "clientCount (e # es) =
     (case clientCount es of
        Some n \<Rightarrow> Some n
      | None \<Rightarrow> (case e of SetWebsocketClientCount n \<Rightarrow> Some n | _ \<Rightarrow> None))"

subsection \<open>Notions the statements about the hub use\<close>

text \<open>The login filter of the loop: the event targets every login, or the client's.\<close>
definition loginMatch :: "(conn \<Rightarrow> clientType) \<Rightarrow> ClusterEvent \<Rightarrow> conn \<Rightarrow> bool" where
  "loginMatch heap event client \<longleftrightarrow>
     LoginId event = 0 \<or> LoginId event = loginId (heap client)"



fun isEvent :: "hubMsg \<Rightarrow> bool" where
  "isEvent (WebsocketClientEvent event) = True"
| "isEvent msg = False"

text \<open>
  The number N of registrations and the number M of deregistrations in a sequence of
  messages handled from the live set \<open>S\<close>. A connection is counted once: registering a
  connection that is in the set registers nothing, and deregistering a connection that
  is not in the set deregisters nothing.
\<close>
fun registrations :: "conn set \<Rightarrow> hubMsg list \<Rightarrow> nat" where
  "registrations S [] = 0"
| "registrations S (ClientAdd client # msgs) =
     (if client \<in> S then 0 else 1) + registrations (insert client S) msgs"
| "registrations S (ClientDel client # msgs) = registrations (S - {client}) msgs"
| "registrations S (WebsocketClientEvent event # msgs) = registrations S msgs"

fun deregistrations :: "conn set \<Rightarrow> hubMsg list \<Rightarrow> nat" where
  "deregistrations S [] = 0"
| "deregistrations S (ClientAdd client # msgs) = deregistrations (insert client S) msgs"
| "deregistrations S (ClientDel client # msgs) =
     (if client \<in> S then 1 else 0) + deregistrations (S - {client}) msgs"
| "deregistrations S (WebsocketClientEvent event # msgs) = deregistrations S msgs"

subsection \<open>Stand-ins for the collaborators\<close>

text \<open>
  Concrete collaborators and clients on which the theorems below are instantiated. The
  decoder knows four messages, each with transaction number 7: a login with the right
  password, a login with a wrong one, an \<^verbatim>\<open>auth\<close> request with the unknown action
  \<^verbatim>\<open>ping\<close>, and a data request. The encoder never fails; the login flows accept the
  payload \<^verbatim>\<open>secret\<close> only; \<open>blocked\<close> is the verdict of the brute-force check.
\<close>

definition stub_Unmarshal :: "bytes \<Rightarrow> error + RequestTransaction" where
  "stub_Unmarshal b =
     (if b = ''login'' then
        Inr \<lparr>TransactionNr = 7,
             Requests = [\<lparr>Ressource = ''auth'', Action = ''user'', Payload = ''secret''\<rparr>]\<rparr>
      else if b = ''badlogin'' then
        Inr \<lparr>TransactionNr = 7,
             Requests = [\<lparr>Ressource = ''auth'', Action = ''user'', Payload = ''guess''\<rparr>]\<rparr>
      else if b = ''ping'' then
        Inr \<lparr>TransactionNr = 7,
             Requests = [\<lparr>Ressource = ''auth'', Action = ''ping'', Payload = ''''\<rparr>]\<rparr>
      else if b = ''get'' then
        Inr \<lparr>TransactionNr = 7,
             Requests = [\<lparr>Ressource = ''data'', Action = ''get'', Payload = ''''\<rparr>]\<rparr>
      else Inl ''unexpected end of JSON input'')"

definition stub_login ::
  "bytes \<Rightarrow> 64 word \<Rightarrow> bool \<Rightarrow> bool \<Rightarrow> (unit goValue \<times> error option) \<times> (64 word \<times> bool \<times> bool)" where
  "stub_login payload l a n =
     (if payload = ''secret'' then ((Opaque (), None), (5, True, False))
      else ((Nil, Some ''wrong password''), (l, a, n)))"

definition stub :: "bool \<Rightarrow> unit collaborators" where
  "stub blocked =
     \<lparr>json_Unmarshal = stub_Unmarshal,
      json_Marshal_value =
        (\<lambda>v. case v of
               ResTrans r \<Rightarrow> Inr ''<response>''
             | UnreqResTrans r \<Rightarrow> Inr ''<push>''
             | _ \<Rightarrow> Inr ''<value>''),
      bruteforce_CheckByHost = (\<lambda>host. blocked),
      request_ExecTransaction =
        (\<lambda>l a n reqTrans resTrans.
           resTrans\<lparr>Responses := map (\<lambda>req. \<lparr>Payload_res = ''done''\<rparr>) (Requests reqTrans)\<rparr>),
      request_LoginAuthToken = stub_login,
      request_LoginAuthTokenFixed =
        (\<lambda>payload l f. ((Nil, Some ''unknown token''), (l, f))),
      request_LoginAuthUser = stub_login,
      handler_CheckForLicenseErrCode = (\<lambda>e. e = ''{ERR_LIC_001} no valid license''),
      handler_ErrGeneral = ''general error'',
      cache_GetModuleIdMapMeta = (),
      cache_GetPresetRecordIds = ()\<rparr>"

definition guest :: clientType where
  "guest = \<lparr>address = ''10.0.0.9'', admin = False, fixedToken = False, loginId = 0, noAuth = False\<rparr>"

definition fatClient :: clientType where
  "fatClient = \<lparr>address = ''10.0.0.9'', admin = False, fixedToken = True, loginId = 3, noAuth = False\<rparr>"

text \<open>
  For the hub: three connections, the first two of login 5 (the first an admin), the
  third of login 8; a pass over the map that visits the entries last to first; and the
  event that carries nothing.
\<close>
definition office :: "conn \<Rightarrow> clientType" where
  "office client =
     (if client = 1 then guest\<lparr>loginId := 5, admin := True\<rparr>
      else if client = 2 then guest\<lparr>loginId := 5\<rparr>
      else if client = 3 then guest\<lparr>loginId := 8\<rparr>
      else guest)"

definition threeClients :: hubType where
  "threeClients = \<lparr>clients = [(1, True), (2, True), (3, True)]\<rparr>"

definition visit :: "(conn \<times> bool) list \<Rightarrow> conn list" where
  "visit entries = rev (map fst entries)"

definition noEvent :: ClusterEvent where
  "noEvent =
     \<lparr>LoginId = 0, Kick = False, KickNonAdmin = False, CollectionChanged = uuid_Nil,
      ConfigChanged = False, FilesCopiedAttributeId = uuid_Nil, FilesCopiedFileIds = [],
      FilesCopiedRecordId = 0, FileRequestedAttributeId = uuid_Nil,
      FileRequestedChooseApp = False, FileRequestedFileId = uuid_Nil,
      FileRequestedFileHash = '''', FileRequestedFileName = '''', Renew = False,
      SchemaLoading = False, SchemaLoaded = False\<rparr>"

section \<open>Lemmas\<close>

subsection \<open>The paths through the body of the dispatcher\<close>

lemma loginSwitch_address:
  "loginSwitch env client req = (resPayload, err, client', fx) \<Longrightarrow> address client' = address client"
  by (auto simp: loginSwitch_def split: if_splits prod.splits)

lemma loginSwitch_other_action:
  "Action req \<noteq> ''token'' \<Longrightarrow> Action req \<noteq> ''tokenFixed'' \<Longrightarrow> Action req \<noteq> ''user''
     \<Longrightarrow> loginSwitch env client req = (Nil, None, client, [])"
  by (simp add: loginSwitch_def)

lemma authResult_number:
  "authResult env client resTrans resPayload err = (resTrans', fx)
     \<Longrightarrow> TransactionNr_res resTrans' = TransactionNr_res resTrans"
  by (auto simp: authResult_def Let_def split: option.splits sum.splits)

lemma body_auth_blocked:
  assumes "json_Unmarshal env reqTransJson = Inr reqTrans" "authRequest reqTrans"
    "bruteforce_CheckByHost env (address client)"
  shows "handleTransaction_body env client reqTransJson =
     (Inl ''{}'', client,
      [LogInfo ''TRANSACTION %d, started by login ID %d (%s)'', CheckByHost (address client),
       HubClientDel])"
  using assms by (simp add: handleTransaction_body_def Let_def)

lemma body_fixed:
  assumes "json_Unmarshal env reqTransJson = Inr reqTrans" "\<not> authRequest reqTrans"
    "fixedToken client"
  shows "handleTransaction_body env client reqTransJson =
     (Inl ''{}'', client,
      [LogInfo ''TRANSACTION %d, started by login ID %d (%s)'',
       LogWarning ''blocked client request''])"
  using assms by (simp add: handleTransaction_body_def Let_def)

lemma body_exec:
  assumes "json_Unmarshal env reqTransJson = Inr reqTrans" "\<not> authRequest reqTrans"
    "\<not> fixedToken client"
  shows "handleTransaction_body env client reqTransJson =
     (Inr (request_ExecTransaction env (loginId client) (admin client) (noAuth client) reqTrans
             \<lparr>TransactionNr_res = TransactionNr reqTrans, Responses = [], Error = ''''\<rparr>),
      client,
      [LogInfo ''TRANSACTION %d, started by login ID %d (%s)'',
       ExecTransaction (loginId client) (admin client) (noAuth client) reqTrans])"
  using assms by (simp add: handleTransaction_body_def Let_def)

lemma body_auth:
  assumes "json_Unmarshal env reqTransJson = Inr reqTrans" "authRequest reqTrans"
    "\<not> bruteforce_CheckByHost env (address client)"
    "loginSwitch env client (Requests reqTrans ! 0) = (resPayload, err, client', fxLogin)"
    "authResult env client'
       \<lparr>TransactionNr_res = TransactionNr reqTrans, Responses = [], Error = ''''\<rparr> resPayload err
       = (resTrans', fxAuth)"
  shows "handleTransaction_body env client reqTransJson =
     (Inr resTrans', client',
      [LogInfo ''TRANSACTION %d, started by login ID %d (%s)'', CheckByHost (address client)]
        @ fxLogin @ fxAuth)"
  using assms by (simp add: handleTransaction_body_def Let_def)

lemma authResult_error:
  "authResult env client resTrans resPayload (Some e) =
     (resTrans\<lparr>Error := (if handler_CheckForLicenseErrCode env e then e else ''AUTH_ERROR'')\<rparr>,
      [LogWarning ''failed to authenticate user'', BadAttemptByHost (address client)]
        @ (if handler_CheckForLicenseErrCode env e \<and> e = ''''
           then [LogInfo ''authenticated client (login ID %d, admin: %v)''] else []))"
  by (auto simp: authResult_def)

lemma authResult_nil:
  "authResult env client \<lparr>TransactionNr_res = n, Responses = [], Error = ''''\<rparr> Nil None =
     (\<lparr>TransactionNr_res = n, Responses = [\<lparr>Payload_res = ''null''\<rparr>], Error = ''''\<rparr>,
      [LogInfo ''authenticated client (login ID %d, admin: %v)''])"
  by (simp add: authResult_def json_Marshal_def)

lemma handleTransaction_client:
  "fst (snd (handleTransaction env client m)) = fst (snd (handleTransaction_body env client m))"
  by (simp add: handleTransaction_def split: prod.splits sum.splits)

lemma handleTransaction_effects:
  "set (snd (snd (handleTransaction env client m))) \<subseteq>
     set (snd (snd (handleTransaction_body env client m)))
       \<union> {LimitAcquire, LimitRelease, LogError ''cannot marshal responses''}"
  by (auto simp: handleTransaction_def split: prod.splits sum.splits)

lemma handleTransaction_effects_body:
  "set (snd (snd (handleTransaction_body env client m)))
     \<subseteq> set (snd (snd (handleTransaction env client m)))"
  by (auto simp: handleTransaction_def split: prod.splits sum.splits)

lemma handleTransaction_reply:
  "fst (handleTransaction_body env client m) = Inr resTrans \<Longrightarrow>
   fst (handleTransaction env client m) =
     (case json_Marshal env (ResTrans resTrans) of Inl err \<Rightarrow> ''{}'' | Inr b \<Rightarrow> b)"
  by (auto simp: handleTransaction_def split: prod.splits sum.splits)

subsection \<open>The live set after a pass over the clients\<close>

lemma live_map_of: "live hub = dom (map_of (clients hub))"
  by (simp add: live_def dom_map_of_conv_image_fst)

lemma removeClient_map_of:
  "map_of (clients (fst (removeClient hub client))) = (map_of (clients hub))(client := None)"
  by (auto simp: removeClient_def Let_def delete_conv' live_map_of)

lemma rangeBody_map_of:
  "map_of (clients (fst (rangeBody heap event jsonMsg hub client))) =
     (if loginMatch heap event client \<and> (Kick event \<or> (KickNonAdmin event \<and> \<not> admin (heap client)))
      then (map_of (clients hub))(client := None) else map_of (clients hub))"
  using removeClient_map_of [of hub client]
  by (auto simp: rangeBody_def loginMatch_def Let_def split: prod.splits)

lemma rangeClients_map_of:
  "map_of (clients (fst (rangeClients heap event jsonMsg order hub))) =
     (\<lambda>client.
        if client \<in> set order \<and> loginMatch heap event client
           \<and> (Kick event \<or> (KickNonAdmin event \<and> \<not> admin (heap client)))
        then None else map_of (clients hub) client)"
proof (induction order arbitrary: hub)
  case Nil
  show ?case by simp
next
  case (Cons client order)
  obtain hub' fx where b: "rangeBody heap event jsonMsg hub client = (hub', fx)"
    by (cases "rangeBody heap event jsonMsg hub client")
  have c: "map_of (clients hub') =
     (if loginMatch heap event client \<and> (Kick event \<or> (KickNonAdmin event \<and> \<not> admin (heap client)))
      then (map_of (clients hub))(client := None) else map_of (clients hub))"
    using rangeBody_map_of [of heap event jsonMsg hub client] b by simp
  have "map_of (clients (fst (rangeClients heap event jsonMsg (client # order) hub))) =
        map_of (clients (fst (rangeClients heap event jsonMsg order hub')))"
    by (simp add: b split: prod.splits)
  also have "\<dots> = (\<lambda>client.
        if client \<in> set order \<and> loginMatch heap event client
           \<and> (Kick event \<or> (KickNonAdmin event \<and> \<not> admin (heap client)))
        then None else map_of (clients hub') client)"
    by (rule Cons.IH)
  finally show ?case
    by (auto simp: c fun_eq_iff)
qed

lemma handleEvent_kick:
  "Kick event \<or> KickNonAdmin event \<Longrightarrow>
   handleEvent env heap order hub event = rangeClients heap event [] order hub"
  by (auto simp: handleEvent_def)

lemma set_visit: "set (visit (clients hub)) = live hub"
  by (simp add: visit_def live_def)



subsection \<open>The calls of the renderer\<close>










subsection \<open>The gauge\<close>

lemma clientCount_append:
  "clientCount (xs @ ys) = (case clientCount ys of Some n \<Rightarrow> Some n | None \<Rightarrow> clientCount xs)"
  by (induction xs) (auto split: option.splits)

lemma live_addClient: "live (fst (addClient hub client)) = insert client (live hub)"
  by (simp add: addClient_def Let_def live_map_of update_conv')

lemma clientCount_addClient:
  "clientCount (snd (addClient hub client)) = Some (card (live (fst (addClient hub client))))"
  by (simp add: addClient_def Let_def len_clients_def)

lemma removeClient_absent: "client \<notin> live hub \<Longrightarrow> removeClient hub client = (hub, [])"
  by (auto simp: removeClient_def live_map_of)

lemma live_removeClient: "live (fst (removeClient hub client)) = live hub - {client}"
  using removeClient_map_of [of hub client] by (auto simp: live_map_of)

lemma clientCount_removeClient:
  "client \<in> live hub \<Longrightarrow>
   clientCount (snd (removeClient hub client)) = Some (card (live (fst (removeClient hub client))))"
  by (auto simp: removeClient_def Let_def len_clients_def live_map_of)

lemma hubStep_gauge:
  assumes "\<not> isEvent msg"
  shows "(\<forall>n. clientCount (snd (hubStep env heap rangeOrder hub msg)) = Some n
              \<longrightarrow> n = card (live (fst (hubStep env heap rangeOrder hub msg))))
         \<and> (clientCount (snd (hubStep env heap rangeOrder hub msg)) = None
              \<longrightarrow> fst (hubStep env heap rangeOrder hub msg) = hub)"
proof (cases msg)
  case (ClientAdd client)
  then show ?thesis by (simp add: hubStep_def clientCount_addClient)
next
  case (ClientDel client)
  then show ?thesis
    by (cases "client \<in> live hub")
       (simp_all add: hubStep_def clientCount_removeClient removeClient_absent)
next
  case (WebsocketClientEvent event)
  with assms show ?thesis by simp
qed

lemma start_gauge:
  assumes "\<forall>msg\<in>set msgs. \<not> isEvent msg"
  shows "(\<forall>n. clientCount (snd (start env heap rangeOrder hub msgs)) = Some n
              \<longrightarrow> n = card (live (fst (start env heap rangeOrder hub msgs))))
         \<and> (clientCount (snd (start env heap rangeOrder hub msgs)) = None
              \<longrightarrow> fst (start env heap rangeOrder hub msgs) = hub)"
  using assms
proof (induction msgs arbitrary: hub)
  case Nil
  show ?case by simp
next
  case (Cons msg msgs)
  obtain hub1 fx1 where s1: "hubStep env heap rangeOrder hub msg = (hub1, fx1)"
    by (cases "hubStep env heap rangeOrder hub msg")
  obtain hub2 fx2 where s2: "start env heap rangeOrder hub1 msgs = (hub2, fx2)"
    by (cases "start env heap rangeOrder hub1 msgs")
  have st: "start env heap rangeOrder hub (msg # msgs) = (hub2, fx1 @ fx2)"
    by (simp add: s1 s2)
  from Cons.prems have "\<not> isEvent msg" by simp
  from hubStep_gauge [OF this, of env heap rangeOrder hub]
  have h1: "\<forall>n. clientCount fx1 = Some n \<longrightarrow> n = card (live hub1)"
    and h1': "clientCount fx1 = None \<longrightarrow> hub1 = hub"
    by (simp_all add: s1)
  from Cons.prems have "\<forall>msg\<in>set msgs. \<not> isEvent msg" by simp
  from Cons.IH [OF this, of hub1]
  have h2: "\<forall>n. clientCount fx2 = Some n \<longrightarrow> n = card (live hub2)"
    and h2': "clientCount fx2 = None \<longrightarrow> hub2 = hub1"
    by (simp_all add: s2)
  show ?case
    unfolding st using h1 h1' h2 h2'
    by (auto simp: clientCount_append split: option.splits)
qed

subsection \<open>Registrations and deregistrations\<close>

lemma finite_live: "finite (live hub)"
  by (simp add: live_def)

lemma hubStep_ClientAdd:
  "live (fst (hubStep env heap rangeOrder hub (ClientAdd client))) = insert client (live hub)"
  by (simp add: hubStep_def live_addClient)

lemma hubStep_ClientDel:
  "live (fst (hubStep env heap rangeOrder hub (ClientDel client))) = live hub - {client}"
  by (simp add: hubStep_def live_removeClient)

lemma start_counts:
  assumes "\<forall>msg\<in>set msgs. \<not> isEvent msg"
  shows "card (live (fst (start env heap rangeOrder hub msgs))) + deregistrations (live hub) msgs
           = card (live hub) + registrations (live hub) msgs"
  using assms
proof (induction msgs arbitrary: hub)
  case Nil
  show ?case by simp
next
  case (Cons msg msgs)
  obtain hub1 fx1 where s1: "hubStep env heap rangeOrder hub msg = (hub1, fx1)"
    by (cases "hubStep env heap rangeOrder hub msg")
  obtain hub2 fx2 where s2: "start env heap rangeOrder hub1 msgs = (hub2, fx2)"
    by (cases "start env heap rangeOrder hub1 msgs")
  have st: "fst (start env heap rangeOrder hub (msg # msgs)) = hub2"
    by (simp add: s1 s2)
  from Cons.prems have "\<forall>msg\<in>set msgs. \<not> isEvent msg" by simp
  from Cons.IH [OF this, of hub1]
  have ih: "card (live hub2) + deregistrations (live hub1) msgs
              = card (live hub1) + registrations (live hub1) msgs"
    by (simp only: s2 fst_conv)
  show ?case
  proof (cases msg)
    case (ClientAdd client)
    have l1: "live hub1 = insert client (live hub)"
      using hubStep_ClientAdd [of env heap rangeOrder hub client] by (simp add: s1 [unfolded ClientAdd])
    have card1: "card (live hub1) = (if client \<in> live hub then 0 else 1) + card (live hub)"
      unfolding l1 using finite_live [of hub] by (simp add: insert_absorb)
    have reg: "registrations (live hub) (msg # msgs)
                 = (if client \<in> live hub then 0 else 1) + registrations (live hub1) msgs"
      by (simp only: ClientAdd l1 registrations.simps)
    have dereg: "deregistrations (live hub) (msg # msgs) = deregistrations (live hub1) msgs"
      by (simp only: ClientAdd l1 deregistrations.simps)
    from ih card1 reg dereg show ?thesis
      unfolding st by (cases "client \<in> live hub") simp_all
  next
    case (ClientDel client)
    have l1: "live hub1 = live hub - {client}"
      using hubStep_ClientDel [of env heap rangeOrder hub client] by (simp add: s1 [unfolded ClientDel])
    have card1: "card (live hub1) + (if client \<in> live hub then 1 else 0) = card (live hub)"
    proof (cases "client \<in> live hub")
      case True
      from card_Suc_Diff1 [OF finite_live True] show ?thesis
        by (simp only: l1 True if_True)
    next
      case False
      then show ?thesis by (simp add: l1)
    qed
    have reg: "registrations (live hub) (msg # msgs) = registrations (live hub1) msgs"
      by (simp only: ClientDel l1 registrations.simps)
    have dereg: "deregistrations (live hub) (msg # msgs)
                   = (if client \<in> live hub then 1 else 0) + deregistrations (live hub1) msgs"
      by (simp only: ClientDel l1 deregistrations.simps)
    from ih card1 reg dereg show ?thesis
      unfolding st by (cases "client \<in> live hub") simp_all
  next
    case (WebsocketClientEvent event)
    with Cons.prems show ?thesis by simp
  qed
qed

lemma start_unpublished:
  assumes "\<forall>msg\<in>set msgs. \<not> isEvent msg"
    and "clientCount (snd (start env heap rangeOrder hub msgs)) = None"
  shows "registrations (live hub) msgs = 0 \<and> deregistrations (live hub) msgs = 0"
  using assms
proof (induction msgs arbitrary: hub)
  case Nil
  show ?case by simp
next
  case (Cons msg msgs)
  obtain hub1 fx1 where s1: "hubStep env heap rangeOrder hub msg = (hub1, fx1)"
    by (cases "hubStep env heap rangeOrder hub msg")
  obtain hub2 fx2 where s2: "start env heap rangeOrder hub1 msgs = (hub2, fx2)"
    by (cases "start env heap rangeOrder hub1 msgs")
  from Cons.prems(2) have "clientCount (fx1 @ fx2) = None"
    by (simp add: s1 s2)
  then have n1: "clientCount fx1 = None" and n2: "clientCount fx2 = None"
    by (simp_all add: clientCount_append split: option.splits)
  from Cons.prems(1) have ne: "\<forall>msg\<in>set msgs. \<not> isEvent msg" by simp
  from n2 have "clientCount (snd (start env heap rangeOrder hub1 msgs)) = None"
    by (simp add: s2)
  from Cons.IH [OF ne this]
  have ih: "registrations (live hub1) msgs = 0 \<and> deregistrations (live hub1) msgs = 0" .
  show ?case
  proof (cases msg)
    case (ClientAdd client)
    with s1 n1 clientCount_addClient [of hub client] show ?thesis
      by (simp add: hubStep_def)
  next
    case (ClientDel client)
    have absent: "client \<notin> live hub"
    proof
      assume "client \<in> live hub"
      from clientCount_removeClient [OF this] s1 n1 ClientDel show False
        by (simp add: hubStep_def)
    qed
    then have "hub1 = hub"
      using s1 ClientDel by (simp add: hubStep_def removeClient_absent)
    with ih absent ClientDel show ?thesis by simp
  next
    case (WebsocketClientEvent event)
    with Cons.prems show ?thesis by simp
  qed
qed

section \<open>Properties of the dispatcher\<close>

subsection \<open>Malformed input\<close>

text \<open>
  C3. Whenever the received bytes fail to unmarshal as a request envelope, the
  dispatcher returns the literal \<^verbatim>\<open>{}\<close>. It does nothing else than take and release the
  limiter slot and log the error: in particular it does not ask the hub to drop the
  connection, and the client's fields are untouched. The function is total, so there is
  no input on which it fails to return.
\<close>
theorem malformed_request_empty_object:
  assumes "json_Unmarshal env reqTransJson = Inl err"
  shows "handleTransaction env client reqTransJson =
           (''{}'', client,
            [LimitAcquire, LogError ''failed to unmarshal transaction'', LimitRelease])
         \<and> HubClientDel \<notin> set (snd (snd (handleTransaction env client reqTransJson)))"
  using assms by (simp add: handleTransaction_def handleTransaction_body_def)

text \<open>The message \<^verbatim>\<open>xx\<close> is not one the stand-in decoder knows.\<close>
theorem malformed_request_empty_object_witness:
  "json_Unmarshal (stub False) ''xx'' = Inl ''unexpected end of JSON input''
   \<and> handleTransaction (stub False) guest ''xx'' =
       (''{}'', guest, [LimitAcquire, LogError ''failed to unmarshal transaction'', LimitRelease])
   \<and> HubClientDel \<notin> set (snd (snd (handleTransaction (stub False) guest ''xx'')))"
  using malformed_request_empty_object
    [of "stub False" "''xx''" "''unexpected end of JSON input''" guest]
  by (simp add: stub_def stub_Unmarshal_def)

subsection \<open>Fixed-token connections\<close>

text \<open>
  C4. For every valid transaction that is not an auth transaction, on a connection whose
  \<open>fixedToken\<close> flag is set, the response is the empty object \<^verbatim>\<open>{}\<close>; the client
  record is returned as it was (so \<open>loginId\<close> and \<open>admin\<close> are unchanged); the effects are
  the limiter slot and two log lines, so the request executor is not called and the hub
  is not asked to drop the connection.
\<close>
theorem fixed_token_request_dropped:
  assumes "json_Unmarshal env reqTransJson = Inr reqTrans"
    and "\<not> authRequest reqTrans"
    and "fixedToken client"
  shows "handleTransaction env client reqTransJson =
           (''{}'', client,
            [LimitAcquire, LogInfo ''TRANSACTION %d, started by login ID %d (%s)'',
             LogWarning ''blocked client request'', LimitRelease])"
  by (simp add: handleTransaction_def body_fixed [OF assms])

text \<open>A data request on a fixed-token connection.\<close>
theorem fixed_token_request_dropped_witness:
  "handleTransaction (stub False) fatClient ''get'' =
           (''{}'', fatClient,
            [LimitAcquire, LogInfo ''TRANSACTION %d, started by login ID %d (%s)'',
             LogWarning ''blocked client request'', LimitRelease])"
  using fixed_token_request_dropped [of "stub False" "''get''" _ fatClient]
  by (simp add: stub_def stub_Unmarshal_def authRequest_def fatClient_def)

subsection \<open>Auth transactions from a blocked host\<close>

text \<open>
  C1, as the code has it. For every auth transaction on a connection whose address the
  brute-force check reports as blocked, the dispatcher asks the hub to deregister the
  connection and stops: no login flow is called, no bad attempt is recorded, the client's
  fields are untouched. It returns the literal \<^verbatim>\<open>{}\<close>, and the goroutine that called
  it hands these two bytes to the connection's writer, which calls
  \<^verbatim>\<open>ws.WriteMessage\<close> with them. The hub, when it receives the request for the
  connection \<open>p\<close>, removes \<open>p\<close> from the live set and no other connection.
\<close>
theorem blocked_auth_disconnect:
  assumes "json_Unmarshal env reqTransJson = Inr reqTrans"
    and "authRequest reqTrans"
    and "bruteforce_CheckByHost env (address client)"
  shows "handleTransaction env client reqTransJson =
           (''{}'', client,
            [LimitAcquire, LogInfo ''TRANSACTION %d, started by login ID %d (%s)'',
             CheckByHost (address client), HubClientDel, LimitRelease])
         \<and> read_message env wsErr client reqTransJson =
           (client,
            [LimitAcquire, LogInfo ''TRANSACTION %d, started by login ID %d (%s)'',
             CheckByHost (address client), HubClientDel, LimitRelease]
              @ client_write wsErr ''{}'')
         \<and> live (fst (hubStep env heap rangeOrder hub (ClientDel p))) = live hub - {p}"
  by (simp add: read_message_def handleTransaction_def body_auth_blocked [OF assms]
      hubStep_def live_removeClient)

text \<open>
  C1 as stated fails: on a blocked host a login message is answered with a write of
  \<^verbatim>\<open>{}\<close> on the connection, after the deregistration request.
\<close>
theorem blocked_auth_counterexample:
  "json_Unmarshal (stub True) ''login'' =
     Inr \<lparr>TransactionNr = 7,
          Requests = [\<lparr>Ressource = ''auth'', Action = ''user'', Payload = ''secret''\<rparr>]\<rparr>
   \<and> bruteforce_CheckByHost (stub True) (address guest)
   \<and> snd (read_message (stub True) None guest ''login'') =
       [LimitAcquire, LogInfo ''TRANSACTION %d, started by login ID %d (%s)'',
        CheckByHost ''10.0.0.9'', HubClientDel, LimitRelease, WsWriteMessage ''{}'']"
  by (simp add: read_message_def handleTransaction_def handleTransaction_body_def
      client_write_def authRequest_def stub_def stub_Unmarshal_def guest_def)


text \<open>The amended statement at the same input, with a transport that accepts the write.\<close>
theorem blocked_auth_disconnect_witness:
  "handleTransaction (stub True) guest ''login'' =
     (''{}'', guest,
      [LimitAcquire, LogInfo ''TRANSACTION %d, started by login ID %d (%s)'',
       CheckByHost ''10.0.0.9'', HubClientDel, LimitRelease])
   \<and> read_message (stub True) None guest ''login'' =
     (guest,
      [LimitAcquire, LogInfo ''TRANSACTION %d, started by login ID %d (%s)'',
       CheckByHost ''10.0.0.9'', HubClientDel, LimitRelease, WsWriteMessage ''{}''])
   \<and> live (fst (hubStep (stub True) office visit threeClients (ClientDel 2))) = {1, 3}"
proof -
  have "live threeClients - {2} = {1, 3}"
    by (auto simp: live_def threeClients_def)
  with blocked_auth_disconnect
         [where env = "stub True" and reqTransJson = "''login''" and client = guest
            and wsErr = None and heap = office and rangeOrder = visit and hub = threeClients
            and p = 2]
  show ?thesis
    by (simp add: stub_def stub_Unmarshal_def authRequest_def guest_def client_write_def)
qed

subsection \<open>The transaction number\<close>

text \<open>
  C2, as the code has it. The dispatcher copies the request's transaction number into the
  response envelope before it branches. For every valid envelope that is not cut short
  (a request transaction on a fixed-token connection, an auth transaction from a blocked
  host), the envelope that reaches the final marshal carries the request's number: always
  on the auth path, and on the request path provided the request executor returns the
  number of the envelope it was handed. The reply is the encoding of that envelope, or
  \<^verbatim>\<open>{}\<close> when the encoding fails.
\<close>
theorem transaction_number_echoed:
  assumes "json_Unmarshal env reqTransJson = Inr reqTrans"
    and "\<not> (\<not> authRequest reqTrans \<and> fixedToken client)"
    and "\<not> (authRequest reqTrans \<and> bruteforce_CheckByHost env (address client))"
    and "\<And>l a n q r. TransactionNr_res (request_ExecTransaction env l a n q r) = TransactionNr_res r"
  shows "\<exists>resTrans.
           fst (handleTransaction_body env client reqTransJson) = Inr resTrans
           \<and> TransactionNr_res resTrans = TransactionNr reqTrans
           \<and> fst (handleTransaction env client reqTransJson) =
               (case json_Marshal env (ResTrans resTrans) of
                  Inl err \<Rightarrow> ''{}''
                | Inr resTransJson \<Rightarrow> resTransJson)"
proof -
  have "\<exists>resTrans. fst (handleTransaction_body env client reqTransJson) = Inr resTrans
           \<and> TransactionNr_res resTrans = TransactionNr reqTrans"
  proof (cases "authRequest reqTrans")
    case False
    with assms(2) have "\<not> fixedToken client" by simp
    from body_exec [OF assms(1) False this] assms(4) show ?thesis by simp
  next
    case True
    with assms(3) have nb: "\<not> bruteforce_CheckByHost env (address client)" by simp
    obtain resPayload err client' fxLogin where
      ls: "loginSwitch env client (Requests reqTrans ! 0) = (resPayload, err, client', fxLogin)"
      by (cases "loginSwitch env client (Requests reqTrans ! 0)")
    obtain resTrans' fxAuth where
      ar: "authResult env client'
             \<lparr>TransactionNr_res = TransactionNr reqTrans, Responses = [], Error = ''''\<rparr>
             resPayload err = (resTrans', fxAuth)"
      by (cases "authResult env client'
             \<lparr>TransactionNr_res = TransactionNr reqTrans, Responses = [], Error = ''''\<rparr>
             resPayload err")
    from body_auth [OF assms(1) True nb ls ar] authResult_number [OF ar]
    show ?thesis by simp
  qed
  then obtain resTrans where
    r: "fst (handleTransaction_body env client reqTransJson) = Inr resTrans"
       "TransactionNr_res resTrans = TransactionNr reqTrans"
    by blast
  from r handleTransaction_reply [OF r(1)] show ?thesis by blast
qed

text \<open>A data request with number 7 on a connection without a fixed token.\<close>
theorem transaction_number_echoed_witness:
  "fst (handleTransaction_body (stub False) guest ''get'') =
     Inr \<lparr>TransactionNr_res = 7, Responses = [\<lparr>Payload_res = ''done''\<rparr>], Error = ''''\<rparr>
   \<and> fst (handleTransaction (stub False) guest ''get'') = ''<response>''"
  using transaction_number_echoed [of "stub False" "''get''" _ guest]
  by (simp add: stub_def stub_Unmarshal_def authRequest_def guest_def handleTransaction_def
      handleTransaction_body_def json_Marshal_def)

text \<open>
  C2 as stated fails: the data request with number 7 parses, and on a fixed-token
  connection the dispatcher returns early with \<^verbatim>\<open>{}\<close>; no envelope, and so no
  transaction number, reaches the marshaller.
\<close>
theorem transaction_number_counterexample:
  "json_Unmarshal (stub False) ''get'' =
     Inr \<lparr>TransactionNr = 7,
          Requests = [\<lparr>Ressource = ''data'', Action = ''get'', Payload = ''''\<rparr>]\<rparr>
   \<and> fst (handleTransaction_body (stub False) fatClient ''get'') = Inl ''{}''
   \<and> fst (handleTransaction (stub False) fatClient ''get'') = ''{}''"
  by (simp add: handleTransaction_def handleTransaction_body_def authRequest_def stub_def
      stub_Unmarshal_def fatClient_def)


subsection \<open>Failed authentication\<close>

text \<open>
  C7. For every auth transaction on a host that is not blocked whose login flow returns
  an error \<open>e\<close>, the dispatcher records a bad attempt against the connection's address,
  and the envelope it marshals has no responses and the transaction-level error \<open>e\<close>
  when the handler package classifies \<open>e\<close> as a license error, and the sentinel
  \<^verbatim>\<open>AUTH_ERROR\<close> otherwise.
\<close>
theorem auth_failure_error_field:
  assumes "json_Unmarshal env reqTransJson = Inr reqTrans"
    and "authRequest reqTrans"
    and "\<not> bruteforce_CheckByHost env (address client)"
    and "loginSwitch env client (Requests reqTrans ! 0) = (resPayload, Some e, client', fxLogin)"
  shows "BadAttemptByHost (address client)
           \<in> set (snd (snd (handleTransaction env client reqTransJson)))
         \<and> fst (handleTransaction_body env client reqTransJson) =
             Inr \<lparr>TransactionNr_res = TransactionNr reqTrans, Responses = [],
                  Error = (if handler_CheckForLicenseErrCode env e then e else ''AUTH_ERROR'')\<rparr>
         \<and> fst (handleTransaction env client reqTransJson) =
             (case json_Marshal env
                     (ResTrans
                        \<lparr>TransactionNr_res = TransactionNr reqTrans, Responses = [],
                         Error = (if handler_CheckForLicenseErrCode env e then e
                                  else ''AUTH_ERROR'')\<rparr>) of
                Inl err \<Rightarrow> ''{}''
              | Inr resTransJson \<Rightarrow> resTransJson)"
proof -
  let ?r = "\<lparr>TransactionNr_res = TransactionNr reqTrans, Responses = [],
             Error = (if handler_CheckForLicenseErrCode env e then e else ''AUTH_ERROR'')\<rparr>"
  have addr: "address client' = address client"
    using assms(4) by (rule loginSwitch_address)
  have body: "handleTransaction_body env client reqTransJson =
     (Inr ?r, client',
      [LogInfo ''TRANSACTION %d, started by login ID %d (%s)'', CheckByHost (address client)]
        @ fxLogin
        @ ([LogWarning ''failed to authenticate user'', BadAttemptByHost (address client)]
        @ (if handler_CheckForLicenseErrCode env e \<and> e = ''''
           then [LogInfo ''authenticated client (login ID %d, admin: %v)''] else [])))"
    by (rule body_auth [OF assms(1-4)]) (simp add: authResult_error addr)
  have "BadAttemptByHost (address client)
          \<in> set (snd (snd (handleTransaction_body env client reqTransJson)))"
    by (simp add: body)
  then have bad: "BadAttemptByHost (address client)
          \<in> set (snd (snd (handleTransaction env client reqTransJson)))"
    using handleTransaction_effects_body by blast
  have fst_body: "fst (handleTransaction_body env client reqTransJson) = Inr ?r"
    by (simp add: body)
  show ?thesis
    using bad fst_body handleTransaction_reply [OF fst_body] by simp
qed

text \<open>A login with a wrong password: the flow's text is replaced by the sentinel.\<close>
theorem auth_failure_error_field_witness:
  "BadAttemptByHost ''10.0.0.9'' \<in> set (snd (snd (handleTransaction (stub False) guest ''badlogin'')))
   \<and> fst (handleTransaction_body (stub False) guest ''badlogin'') =
       Inr \<lparr>TransactionNr_res = 7, Responses = [], Error = ''AUTH_ERROR''\<rparr>
   \<and> fst (handleTransaction (stub False) guest ''badlogin'') = ''<response>''"
  using auth_failure_error_field [of "stub False" "''badlogin''" _ guest Nil "''wrong password''" guest
      "[LoginAuthUser ''guess'']"]
  by (simp add: stub_def stub_Unmarshal_def stub_login_def authRequest_def guest_def
      loginSwitch_def json_Marshal_def)

subsection \<open>Unknown auth actions\<close>

text \<open>
  C10. For every auth transaction on a host that is not blocked whose action is none of
  \<^verbatim>\<open>token\<close>, \<^verbatim>\<open>tokenFixed\<close> and \<^verbatim>\<open>user\<close>, no login flow is called and the
  dispatcher goes on as after a successful login: no bad attempt is recorded, the
  transaction-level error stays empty, the client record is returned as it was, and the
  envelope it marshals has exactly one response, whose payload is the literal
  \<^verbatim>\<open>null\<close>.
\<close>
theorem unknown_auth_action_succeeds:
  assumes "json_Unmarshal env reqTransJson = Inr reqTrans"
    and "authRequest reqTrans"
    and "\<not> bruteforce_CheckByHost env (address client)"
    and "Action (Requests reqTrans ! 0) \<noteq> ''token''"
    and "Action (Requests reqTrans ! 0) \<noteq> ''tokenFixed''"
    and "Action (Requests reqTrans ! 0) \<noteq> ''user''"
  shows "handleTransaction_body env client reqTransJson =
           (Inr \<lparr>TransactionNr_res = TransactionNr reqTrans,
                 Responses = [\<lparr>Payload_res = ''null''\<rparr>], Error = ''''\<rparr>,
            client,
            [LogInfo ''TRANSACTION %d, started by login ID %d (%s)'', CheckByHost (address client),
             LogInfo ''authenticated client (login ID %d, admin: %v)''])
         \<and> fst (snd (handleTransaction env client reqTransJson)) = client
         \<and> (\<forall>host. BadAttemptByHost host
               \<notin> set (snd (snd (handleTransaction env client reqTransJson))))
         \<and> fst (handleTransaction env client reqTransJson) =
             (case json_Marshal env
                     (ResTrans
                        \<lparr>TransactionNr_res = TransactionNr reqTrans,
                         Responses = [\<lparr>Payload_res = ''null''\<rparr>], Error = ''''\<rparr>) of
                Inl err \<Rightarrow> ''{}''
              | Inr resTransJson \<Rightarrow> resTransJson)"
proof -
  have body: "handleTransaction_body env client reqTransJson =
           (Inr \<lparr>TransactionNr_res = TransactionNr reqTrans,
                 Responses = [\<lparr>Payload_res = ''null''\<rparr>], Error = ''''\<rparr>,
            client,
            [LogInfo ''TRANSACTION %d, started by login ID %d (%s)'', CheckByHost (address client)]
             @ [] @ [LogInfo ''authenticated client (login ID %d, admin: %v)''])"
    by (rule body_auth [OF assms(1-3) loginSwitch_other_action [OF assms(4-6)] authResult_nil])
  have "\<forall>host. BadAttemptByHost host
          \<notin> set (snd (snd (handleTransaction_body env client reqTransJson)))"
    by (simp add: body)
  then have bad: "\<forall>host. BadAttemptByHost host
          \<notin> set (snd (snd (handleTransaction env client reqTransJson)))"
    using handleTransaction_effects [of env client reqTransJson] by auto
  have fst_body: "fst (handleTransaction_body env client reqTransJson) =
      Inr \<lparr>TransactionNr_res = TransactionNr reqTrans,
            Responses = [\<lparr>Payload_res = ''null''\<rparr>], Error = ''''\<rparr>"
    by (simp add: body)
  show ?thesis
    using body bad handleTransaction_reply [OF fst_body]
    by (simp add: handleTransaction_client)
qed

text \<open>The auth request with the action \<^verbatim>\<open>ping\<close>.\<close>
theorem unknown_auth_action_succeeds_witness:
  "handleTransaction (stub False) guest ''ping'' =
     (''<response>'', guest,
      [LimitAcquire, LogInfo ''TRANSACTION %d, started by login ID %d (%s)'',
       CheckByHost ''10.0.0.9'', LogInfo ''authenticated client (login ID %d, admin: %v)'',
       LimitRelease])
   \<and> fst (handleTransaction_body (stub False) guest ''ping'') =
       Inr \<lparr>TransactionNr_res = 7, Responses = [\<lparr>Payload_res = ''null''\<rparr>], Error = ''''\<rparr>"
  using unknown_auth_action_succeeds [of "stub False" "''ping''" _ guest]
  by (simp add: stub_def stub_Unmarshal_def authRequest_def guest_def handleTransaction_def
      json_Marshal_def)

section \<open>Properties of the hub\<close>

subsection \<open>Kick events\<close>

text \<open>
  C5. For every cluster event with the kick flag or the kick-non-admin flag set and
  target login \<open>L\<close>, one iteration of the hub loop removes from the live set exactly
  the connections whose \<open>loginId\<close> is \<open>L\<close> (every connection when \<open>L\<close> is 0) and,
  when only the kick-non-admin flag is set, whose \<open>admin\<close> flag is false; every other
  connection stays in the set. The pass visits the keys of the map in any order.
\<close>
theorem kick_removes_matching:
  assumes "Kick event \<or> KickNonAdmin event"
    and "set (rangeOrder (clients hub)) = live hub"
  shows "live (fst (hubStep env heap rangeOrder hub (WebsocketClientEvent event))) =
           live hub
             - {client. (LoginId event = 0 \<or> loginId (heap client) = LoginId event)
                        \<and> (Kick event \<or> \<not> admin (heap client))}"
proof -
  define hub' where "hub' = fst (hubStep env heap rangeOrder hub (WebsocketClientEvent event))"
  have "hubStep env heap rangeOrder hub (WebsocketClientEvent event) =
          rangeClients heap event [] (rangeOrder (clients hub)) hub"
    by (simp add: hubStep_def handleEvent_kick [OF assms(1)])
  then have "map_of (clients hub') =
     map_of (clients (fst (rangeClients heap event [] (rangeOrder (clients hub)) hub)))"
    by (simp only: hub'_def)
  also note rangeClients_map_of
  finally have pointwise: "map_of (clients hub') client =
     (if client \<in> live hub \<and> loginMatch heap event client
         \<and> (Kick event \<or> (KickNonAdmin event \<and> \<not> admin (heap client)))
      then None else map_of (clients hub) client)" for client
    unfolding assms(2) by (rule fun_cong)
  have "dom (map_of (clients hub')) =
           dom (map_of (clients hub))
             - {client. (LoginId event = 0 \<or> loginId (heap client) = LoginId event)
                        \<and> (Kick event \<or> \<not> admin (heap client))}"
    using assms(1)
    by (auto simp: pointwise live_map_of loginMatch_def dom_def split: if_splits)
  then show ?thesis
    unfolding hub'_def live_map_of .
qed

text \<open>
  A kick of the non-admins of login 5 among three connections: the admin of login 5 and
  the connection of login 8 stay.
\<close>
theorem kick_removes_matching_witness:
  "live (fst (hubStep (stub False) office visit threeClients
       (WebsocketClientEvent (noEvent\<lparr>LoginId := 5, KickNonAdmin := True\<rparr>)))) = {1, 3}"
proof -
  have kick: "Kick (noEvent\<lparr>LoginId := 5, KickNonAdmin := True\<rparr>)
              \<or> KickNonAdmin (noEvent\<lparr>LoginId := 5, KickNonAdmin := True\<rparr>)"
    by simp
  have "live threeClients
          - {client. (LoginId (noEvent\<lparr>LoginId := 5, KickNonAdmin := True\<rparr>) = 0
                      \<or> loginId (office client) = LoginId (noEvent\<lparr>LoginId := 5, KickNonAdmin := True\<rparr>))
                     \<and> (Kick (noEvent\<lparr>LoginId := 5, KickNonAdmin := True\<rparr>) \<or> \<not> admin (office client))}
        = {1, 3}"
    by (auto simp: live_def threeClients_def noEvent_def office_def guest_def split: if_splits)
  with kick_removes_matching
         [where rangeOrder = visit and hub = threeClients and env = "stub False" and heap = office,
          OF kick set_visit]
  show ?thesis by simp
qed

subsection \<open>Broadcast events\<close>



subsection \<open>The connection count\<close>

text \<open>
  C8. After any sequence of registrations and deregistrations handled by the hub loop
  from the empty map, with N the registrations and M the deregistrations, a connection
  being counted once (the registration of a connection that is in the set and the
  deregistration of one that is not are not counted), M is at most N, the size of the
  live set is N - M, and N - M is the count last published to the gauge; nothing has
  been published only if N and M are both 0. The deregistration of a connection that
  is not in the set changes nothing and publishes nothing, so deregistering a
  connection twice is the same as deregistering it once.
\<close>
theorem client_count_registrations_minus_deregistrations:
  assumes "\<forall>msg\<in>set msgs. \<not> isEvent msg"
  shows "deregistrations {} msgs \<le> registrations {} msgs
         \<and> card (live (fst (start env heap rangeOrder hub_init msgs)))
             = registrations {} msgs - deregistrations {} msgs
         \<and> (\<forall>n. clientCount (snd (start env heap rangeOrder hub_init msgs)) = Some n
              \<longrightarrow> n = registrations {} msgs - deregistrations {} msgs)
         \<and> (clientCount (snd (start env heap rangeOrder hub_init msgs)) = None
              \<longrightarrow> registrations {} msgs = 0 \<and> deregistrations {} msgs = 0)
         \<and> (client \<notin> live hub \<longrightarrow> removeClient hub client = (hub, []))
         \<and> removeClient (fst (removeClient hub client)) client = (fst (removeClient hub client), [])"
proof -
  have empty: "live hub_init = {}"
    by (simp add: live_def hub_init_def)
  from start_counts [OF assms, of env heap rangeOrder hub_init]
  have eq: "card (live (fst (start env heap rangeOrder hub_init msgs))) + deregistrations {} msgs
              = registrations {} msgs"
    by (simp add: empty)
  from eq have le: "deregistrations {} msgs \<le> registrations {} msgs" by arith
  from eq have card: "card (live (fst (start env heap rangeOrder hub_init msgs)))
               = registrations {} msgs - deregistrations {} msgs" by arith
  from start_gauge [OF assms, of env heap rangeOrder hub_init] card
  have pub: "\<forall>n. clientCount (snd (start env heap rangeOrder hub_init msgs)) = Some n
              \<longrightarrow> n = registrations {} msgs - deregistrations {} msgs"
    by simp
  have unpub: "clientCount (snd (start env heap rangeOrder hub_init msgs)) = None
              \<longrightarrow> registrations {} msgs = 0 \<and> deregistrations {} msgs = 0"
    using start_unpublished [OF assms, of env heap rangeOrder hub_init] by (simp add: empty)
  have twice: "removeClient (fst (removeClient hub client)) client = (fst (removeClient hub client), [])"
    by (rule removeClient_absent) (simp add: live_removeClient)
  from le card pub unpub removeClient_absent [of client hub] twice show ?thesis by blast
qed

text \<open>
  Two registrations, then the first connection is deregistered twice: N is 2, M is 1,
  and the count published last is 1.
\<close>
theorem client_count_registrations_minus_deregistrations_witness:
  "registrations {} [ClientAdd 1, ClientAdd 2, ClientDel 1, ClientDel 1] = 2
   \<and> deregistrations {} [ClientAdd 1, ClientAdd 2, ClientDel 1, ClientDel 1] = 1
   \<and> live (fst (start (stub False) office visit hub_init
                   [ClientAdd 1, ClientAdd 2, ClientDel 1, ClientDel 1])) = {2}
   \<and> clientCount (snd (start (stub False) office visit hub_init
                          [ClientAdd 1, ClientAdd 2, ClientDel 1, ClientDel 1])) = Some 1"
proof -
  let ?msgs = "[ClientAdd 1, ClientAdd 2, ClientDel 1, ClientDel 1]"
  have ne: "\<forall>msg\<in>set ?msgs. \<not> isEvent msg" by simp
  have n: "registrations {} ?msgs = 2" and m: "deregistrations {} ?msgs = 1"
    by simp_all
  have l: "live (fst (start (stub False) office visit hub_init ?msgs)) = {2}"
    by (simp add: hubStep_def addClient_def removeClient_def hub_init_def live_def Let_def)
  have c: "clientCount (snd (start (stub False) office visit hub_init ?msgs)) \<noteq> None"
    by (simp add: hubStep_def addClient_def removeClient_def hub_init_def live_def Let_def)
  from client_count_registrations_minus_deregistrations
         [where env = "stub False" and heap = office and rangeOrder = visit, OF ne] n m c
  have "clientCount (snd (start (stub False) office visit hub_init ?msgs)) = Some 1"
    by auto
  with l n m show ?thesis by blast
qed

end
